theory Spec2Isabelle
  imports Complex_Main
begin

section \<open>The quadrotor PD controller of \<open>quad_pid.py\<close>\<close>

text \<open>
  The script is one straight-line control computation inside a \<open>while True\<close> loop.
  The embedding follows it line by line.

  \<^item> In the model of the tick, numpy's float64 numbers are idealised as \<^typ>\<open>real\<close>:
    rounding, NaN and the signed zero are not modelled there. Where the exact value of
    a float64 result is at stake (the sum of the rotor commands), the rounding of every
    operation is modelled as well, by \<open>fl\<close> below.
  \<^item> The shape of every array in the script is fixed, either by the literal that
    builds it (\<open>x_d\<close>, \<open>K_p\<close>, \<open>K_d\<close>, \<open>C_R\<close>, \<open>x\<close>) or by the simulator's
    interface (\<open>get_body_xmat\<close> is 3 by 3, \<open>get_body_xipos\<close> has 3 entries,
    \<open>ctrl\<close> has one slot for each of the four motors of \<open>MODEL_XML\<close>). Each shape is
    a datatype of its own, and \<open>v[i]\<close> is the selector of component \<open>i\<close>.
  \<^item> The simulator is external. Its visible data is a record; what \<open>sim.step()\<close>
    does to it is a parameter \<open>step\<close> of the loop, about which nothing is assumed.
\<close>

subsection \<open>Arrays of fixed shape\<close>

datatype vec3 = Vec3 (c0: real) (c1: real) (c2: real)

datatype mat3 = Mat3 (r0: vec3) (r1: vec3) (r2: vec3)

datatype vec4 = Vec4 (at0: real) (at1: real) (at2: real) (at3: real)

datatype mat4 = Mat4 (row0: vec4) (row1: vec4) (row2: vec4) (row3: vec4)

text \<open>Elementwise \<open>+\<close>, \<open>-\<close> of two arrays of shape (4,) and \<open>/\<close> by a scalar.\<close>

definition vadd :: "vec4 \<Rightarrow> vec4 \<Rightarrow> vec4" where
  "vadd v w = Vec4 (at0 v + at0 w) (at1 v + at1 w) (at2 v + at2 w) (at3 v + at3 w)"

definition vsub :: "vec4 \<Rightarrow> vec4 \<Rightarrow> vec4" where
  "vsub v w = Vec4 (at0 v - at0 w) (at1 v - at1 w) (at2 v - at2 w) (at3 v - at3 w)"

definition vdiv :: "vec4 \<Rightarrow> real \<Rightarrow> vec4" where
  "vdiv v k = Vec4 (at0 v / k) (at1 v / k) (at2 v / k) (at3 v / k)"

text \<open>\<open>np.matmul\<close> of a (4,4) array and a (4,) array: the dot product of every row.\<close>

definition dot :: "vec4 \<Rightarrow> vec4 \<Rightarrow> real" where
  "dot r v = at0 r * at0 v + at1 r * at1 v + at2 r * at2 v + at3 r * at3 v"

definition matmul :: "mat4 \<Rightarrow> vec4 \<Rightarrow> vec4" where
  "matmul M v = Vec4 (dot (row0 M) v) (dot (row1 M) v) (dot (row2 M) v) (dot (row3 M) v)"

text \<open>
  The variable \<open>e\<close> starts as the Python integer \<open>0\<close> (line 67) and holds an array
  from the first tick on. \<open>e - e_last\<close> with an integer on the right is numpy's
  broadcast: the integer is subtracted from every component.
\<close>

datatype pyval = PyInt int | NdArray vec4

fun sub_pyval :: "vec4 \<Rightarrow> pyval \<Rightarrow> vec4" where
  "sub_pyval v (PyInt k) =
     Vec4 (at0 v - of_int k) (at1 v - of_int k) (at2 v - of_int k) (at3 v - of_int k)"
| "sub_pyval v (NdArray w) = vsub v w"

text \<open>
  \<open>np.arctan2 y x\<close>, the angle of the point \<open>(x, y)\<close> in \<open>(-pi, pi]\<close>, by the cases
  of C's \<open>atan2\<close> over the reals.
\<close>

definition arctan2 :: "real \<Rightarrow> real \<Rightarrow> real" where
  "arctan2 y x =
     (if 0 < x then arctan (y / x)
      else if x < 0 \<and> 0 \<le> y then arctan (y / x) + pi
      else if x < 0 then arctan (y / x) - pi
      else if 0 < y then pi / 2
      else if y < 0 then - (pi / 2)
      else 0)"

subsection \<open>Constants (lines 15 to 121)\<close>

definition dt :: real where "dt = 0.001"
definition gravity :: real where "gravity = 9.81"
definition mass :: real where "mass = 0.3"

definition x_d :: vec4 where "x_d = Vec4 0.5 0.0 0.0 0.0"

definition kpz :: real where "kpz = 4"
definition kpphi :: real where "kpphi = 0.01"
definition kptheta :: real where "kptheta = 0.01"
definition kppsi :: real where "kppsi = 0.01"

definition K_p :: mat4 where
  "K_p = Mat4 (Vec4 kpz 0 0 0) (Vec4 0 kpphi 0 0) (Vec4 0 0 kptheta 0) (Vec4 0 0 0 kppsi)"

definition kdz :: real where "kdz = 0.01"
definition kdphi :: real where "kdphi = 0.01"
definition kdtheta :: real where "kdtheta = 0.01"
definition kdpsi :: real where "kdpsi = 0.01"

definition K_d :: mat4 where
  "K_d = Mat4 (Vec4 kdz 0 0 0) (Vec4 0 kdphi 0 0) (Vec4 0 0 kdtheta 0) (Vec4 0 0 0 kdpsi)"

text \<open>
  The source's one-letter names \<open>L\<close>, \<open>C\<close>, \<open>a\<close>, \<open>b\<close>, \<open>c\<close> carry a suffix here, so that
  they stay free for variables.
\<close>

definition L_arm :: real where "L_arm = 0.1"
definition C_const :: real where "C_const = 0.1"

definition a_rotor :: real where "a_rotor = 0.25"
definition b_rotor :: real where "b_rotor = 1 / (4 * L_arm)"
definition c_rotor :: real where "c_rotor = 1 / (4 * C_const)"

definition C_R :: mat4 where
  "C_R = Mat4 (Vec4 a_rotor b_rotor (- b_rotor) (- c_rotor))
              (Vec4 a_rotor (- b_rotor) (- b_rotor) c_rotor)
              (Vec4 a_rotor (- b_rotor) b_rotor (- c_rotor))
              (Vec4 a_rotor b_rotor b_rotor c_rotor)"

subsection \<open>The simulator's data and the program state\<close>

text \<open>
  \<open>body_xmat\<close> and \<open>body_xipos\<close> are what \<open>sim.data.get_body_xmat('quadrotor')\<close> and
  \<open>sim.data.get_body_xipos('quadrotor')\<close> return, \<open>ctrl\<close> is \<open>sim.data.ctrl\<close>. The
  rest of the simulator's state is the record's extension.
\<close>

record sim_data =
  body_xmat :: mat3
  body_xipos :: vec3
  ctrl :: vec4

text \<open>
  The module-level variables that change: \<open>sim\<close>, \<open>t\<close>, \<open>e\<close>, and what \<open>print\<close> has
  written so far, oldest first.
\<close>

record 'a pstate =
  st_sim :: "'a sim_data_scheme"
  st_t :: int
  st_e :: pyval
  st_out :: "vec4 list"

text \<open>The state at line 123, before the loop, for a freshly built simulator.\<close>

definition init :: "'a sim_data_scheme \<Rightarrow> 'a pstate" where
  "init sim0 = \<lparr>st_sim = sim0, st_t = 0, st_e = PyInt 0, st_out = []\<rparr>"

subsection \<open>One tick (lines 127 to 162)\<close>

text \<open>Lines 129 to 131: the angles read off the rotation matrix.\<close>

definition rpy :: "mat3 \<Rightarrow> real \<times> real \<times> real" where
  "rpy rotmat =
     (let yaw = arctan2 (c0 (r1 rotmat)) (c0 (r0 rotmat));
          pitch = arctan2 (- c0 (r2 rotmat)) (sqrt ((c1 (r2 rotmat))\<^sup>2 + (c2 (r2 rotmat))\<^sup>2));
          roll = arctan2 (c1 (r2 rotmat)) (c2 (r2 rotmat))
      in (yaw, pitch, roll))"

text \<open>Lines 149 and 150: the control output from the error and its derivative.\<close>

definition control_output :: "vec4 \<Rightarrow> vec4 \<Rightarrow> vec4" where
  "control_output ev ed =
     (let u = vadd (matmul K_p ev) (matmul K_d ed)
      in vadd u (Vec4 (at0 u + mass * gravity) 0 0 0))"

text \<open>The local variables of one pass through the loop body, lines 127 to 153.\<close>

record locals =
  yaw :: real
  pitch :: real
  roll :: real
  x :: vec4
  e_last :: pyval
  e :: vec4
  e_dot :: vec4
  u :: vec4
  F :: vec4

definition compute :: "'a pstate \<Rightarrow> locals" where
  "compute s =
     (let rotmat = body_xmat (st_sim s);
          (yaw, pitch, roll) = rpy rotmat;
          x = Vec4 (c2 (body_xipos (st_sim s))) roll pitch yaw;
          e_last = st_e s;
          e = vsub x_d x;
          e_dot = vdiv (sub_pyval e e_last) dt;
          u = control_output e e_dot;
          F = matmul C_R u
      in \<lparr>yaw = yaw, pitch = pitch, roll = roll, x = x, e_last = e_last, e = e,
          e_dot = e_dot, u = u, F = F\<rparr>)"

text \<open>The four writes \<open>sim.data.ctrl[i] = F[i]\<close> of lines 155 to 158, one slot each.\<close>

definition set_ctrl0 :: "real \<Rightarrow> 'a sim_data_scheme \<Rightarrow> 'a sim_data_scheme" where
  "set_ctrl0 v sim = sim\<lparr>ctrl := Vec4 v (at1 (ctrl sim)) (at2 (ctrl sim)) (at3 (ctrl sim))\<rparr>"

definition set_ctrl1 :: "real \<Rightarrow> 'a sim_data_scheme \<Rightarrow> 'a sim_data_scheme" where
  "set_ctrl1 v sim = sim\<lparr>ctrl := Vec4 (at0 (ctrl sim)) v (at2 (ctrl sim)) (at3 (ctrl sim))\<rparr>"

definition set_ctrl2 :: "real \<Rightarrow> 'a sim_data_scheme \<Rightarrow> 'a sim_data_scheme" where
  "set_ctrl2 v sim = sim\<lparr>ctrl := Vec4 (at0 (ctrl sim)) (at1 (ctrl sim)) v (at3 (ctrl sim))\<rparr>"

definition set_ctrl3 :: "real \<Rightarrow> 'a sim_data_scheme \<Rightarrow> 'a sim_data_scheme" where
  "set_ctrl3 v sim = sim\<lparr>ctrl := Vec4 (at0 (ctrl sim)) (at1 (ctrl sim)) (at2 (ctrl sim)) v\<rparr>"

text \<open>
  Lines 127 to 158: the state when the fourth actuator slot has been written, before
  \<open>t += 1\<close> and \<open>sim.step()\<close>.
\<close>

definition actuate :: "'a pstate \<Rightarrow> 'a pstate" where
  "actuate s =
     (let l = compute s
      in s\<lparr>st_e := NdArray (e l),
           st_out := st_out s @ [e l],
           st_sim := set_ctrl3 (at3 (F l)) (set_ctrl2 (at2 (F l))
                       (set_ctrl1 (at1 (F l)) (set_ctrl0 (at0 (F l)) (st_sim s))))\<rparr>)"

text \<open>
  Lines 160 to 162. \<open>viewer.render()\<close> draws the frame and changes none of the
  variables above.
\<close>

definition tick :: "('a sim_data_scheme \<Rightarrow> 'a sim_data_scheme) \<Rightarrow> 'a pstate \<Rightarrow> 'a pstate" where
  "tick step s =
     (let s1 = actuate s;
          s2 = s1\<lparr>st_t := st_t s1 + 1\<rparr>
      in s2\<lparr>st_sim := step (st_sim s2)\<rparr>)"

subsection \<open>The loop (lines 124 to 164)\<close>

text \<open>
  \<open>os.getenv\<close> reads the process environment, a map from names to values. The test of
  line 163 is \<open>t > 100 and os.getenv('TESTING') is not None\<close>. The loop's value is the
  state at the \<open>break\<close>; \<open>None\<close> is a loop that never leaves.
\<close>

definition getenv :: "(string \<rightharpoonup> string) \<Rightarrow> string \<Rightarrow> string option" where
  "getenv env k = env k"

partial_function (option) loop ::
  "('a sim_data_scheme \<Rightarrow> 'a sim_data_scheme) \<Rightarrow> (string \<rightharpoonup> string) \<Rightarrow> 'a pstate \<Rightarrow> 'a pstate option"
where
  "loop step env s =
     (let s' = tick step s
      in if 100 < st_t s' \<and> getenv env ''TESTING'' \<noteq> None then Some s'
         else loop step env s')"

subsection \<open>The control law and the rotation matrix in the specification's words\<close>

text \<open>
  The law of the written commands as a function of the error, the previous error and
  the tick interval alone. The compensation on channel 0 is the one of the
  specification's data model, \<open>u[0] += u[0] + mass*gravity\<close>.
\<close>

definition F_law :: "vec4 \<Rightarrow> pyval \<Rightarrow> real \<Rightarrow> vec4" where
  "F_law ev el h =
     (let pd = vadd (matmul K_p ev) (matmul K_d (vdiv (sub_pyval ev el) h))
      in matmul C_R (vadd pd (Vec4 (at0 pd + mass * gravity) 0 0 0)))"

text \<open>
  The rotation matrix of a roll \<open>phi\<close>, a pitch \<open>theta\<close> and a yaw \<open>psi\<close> in the
  aerospace convention the decomposition of lines 129 to 131 inverts: the product of
  the rotation about z by \<open>psi\<close>, about y by \<open>theta\<close> and about x by \<open>phi\<close>. It is not
  part of the script; the round trip of the specification builds it.
\<close>

definition rotmat_of_rpy :: "real \<Rightarrow> real \<Rightarrow> real \<Rightarrow> mat3" where
  "rotmat_of_rpy phi theta psi =
     Mat3 (Vec3 (cos psi * cos theta)
                (cos psi * sin theta * sin phi - sin psi * cos phi)
                (cos psi * sin theta * cos phi + sin psi * sin phi))
          (Vec3 (sin psi * cos theta)
                (sin psi * sin theta * sin phi + cos psi * cos phi)
                (sin psi * sin theta * cos phi - cos psi * sin phi))
          (Vec3 (- sin theta) (cos theta * sin phi) (cos theta * cos phi))"

subsection \<open>float64 arithmetic\<close>

text \<open>
  A finite float64 is a real of the form \<open>m / 2^k\<close> with \<open>|m| < 2^53\<close> and \<open>k \<le> 1074\<close>.
  \<open>fl y\<close> is the float64 nearest to the real \<open>y\<close>, ties to the even significand, which
  is what IEEE 754 prescribes for a decimal literal and for the result of \<open>+\<close>, \<open>*\<close> and
  \<open>/\<close>. \<open>scale_exp\<close> looks for the \<open>k\<close> with \<open>2^52 \<le> |y| \<cdot> 2^k < 2^53\<close> by doubling or
  halving, at most 2200 times, which covers the whole range of float64; \<open>k\<close> stops at
  1074, the subnormal numbers. Overflow to infinity is not modelled.
\<close>

definition round_even :: "real \<Rightarrow> int" where
  "round_even y =
     (let f = \<lfloor>y\<rfloor>; d = y - of_int f
      in if d < 1 / 2 then f else if 1 / 2 < d then f + 1 else if even f then f else f + 1)"

fun scale_exp :: "nat \<Rightarrow> real \<Rightarrow> int \<Rightarrow> int" where
  "scale_exp 0 m k = k"
| "scale_exp (Suc n) m k =
     (if m < 2 ^ 52 then scale_exp n (2 * m) (k + 1)
      else if 2 ^ 53 \<le> m then scale_exp n (m / 2) (k - 1)
      else k)"

definition pow2 :: "int \<Rightarrow> real" where
  "pow2 k = (if 0 \<le> k then 2 ^ nat k else 1 / 2 ^ nat (- k))"

definition fl :: "real \<Rightarrow> real" where
  "fl y =
     (if y = 0 then 0
      else let k = min (scale_exp 2200 \<bar>y\<bar> 0) 1074
           in of_int (round_even (y * pow2 k)) / pow2 k)"

text \<open>
  Half of the smallest positive float64, the most that rounding can move a number in
  the subnormal range.
\<close>

definition eta :: real where
  "eta = 1 / 2 ^ 1075"

text \<open>Python's \<open>+\<close>, \<open>*\<close> and \<open>/\<close> on two floats.\<close>

definition fadd :: "real \<Rightarrow> real \<Rightarrow> real" where
  "fadd p q = fl (p + q)"

definition fmul :: "real \<Rightarrow> real \<Rightarrow> real" where
  "fmul p q = fl (p * q)"

definition fdiv :: "real \<Rightarrow> real \<Rightarrow> real" where
  "fdiv p q = fl (p / q)"

text \<open>
  \<open>np.matmul\<close> in float64: every product and every partial sum of a row is rounded.
  The order in which numpy accumulates a row is its implementation's; here it is left
  to right.
\<close>

definition dot_f64 :: "vec4 \<Rightarrow> vec4 \<Rightarrow> real" where
  "dot_f64 r v =
     fadd (fadd (fadd (fmul (at0 r) (at0 v)) (fmul (at1 r) (at1 v))) (fmul (at2 r) (at2 v)))
          (fmul (at3 r) (at3 v))"

definition matmul_f64 :: "mat4 \<Rightarrow> vec4 \<Rightarrow> vec4" where
  "matmul_f64 M v =
     Vec4 (dot_f64 (row0 M) v) (dot_f64 (row1 M) v) (dot_f64 (row2 M) v) (dot_f64 (row3 M) v)"

text \<open>
  Lines 106 to 121 in float64: the literals are rounded, \<open>1\<close> and \<open>4\<close> are integers,
  negation is exact.
\<close>

definition L_f64 :: real where "L_f64 = fl 0.1"
definition C_f64 :: real where "C_f64 = fl 0.1"
definition a_f64 :: real where "a_f64 = fl 0.25"
definition b_f64 :: real where "b_f64 = fdiv 1 (fmul 4 L_f64)"
definition c_f64 :: real where "c_f64 = fdiv 1 (fmul 4 C_f64)"

definition C_R_f64 :: mat4 where
  "C_R_f64 = Mat4 (Vec4 a_f64 b_f64 (- b_f64) (- c_f64))
                  (Vec4 a_f64 (- b_f64) (- b_f64) c_f64)
                  (Vec4 a_f64 (- b_f64) b_f64 (- c_f64))
                  (Vec4 a_f64 b_f64 b_f64 c_f64)"

subsection \<open>Concrete states\<close>

text \<open>A simulator whose body is level (identity rotation) at height \<open>z\<close>, motors off.\<close>

definition sim_level :: "real \<Rightarrow> sim_data" where
  "sim_level z =
     \<lparr>body_xmat = Mat3 (Vec3 1 0 0) (Vec3 0 1 0) (Vec3 0 0 1),
      body_xipos = Vec3 0 0 z,
      ctrl = Vec4 0 0 0 0\<rparr>"

text \<open>
  A later tick with the body level and at rest one unit above the target altitude:
  the previous error is already \<open>[-1, 0, 0, 0]\<close>.
\<close>

definition s_above :: "unit pstate" where
  "s_above =
     \<lparr>st_sim = sim_level 1.5, st_t = 1, st_e = NdArray (Vec4 (- 1) 0 0 0),
      st_out = [Vec4 (- 1) 0 0 0]\<rparr>"

text \<open>An environment with the test flag set, and a simulator step that changes nothing.\<close>

definition env_testing :: "string \<rightharpoonup> string" where
  "env_testing = [''TESTING'' \<mapsto> ''1'']"

definition step_idle :: "sim_data \<Rightarrow> sim_data" where
  "step_idle sim = sim"


text \<open>The control output \<open>np.array([0.1, 1.0, 0.0, 0.0])\<close> in float64.\<close>

definition u_tenth :: vec4 where
  "u_tenth = Vec4 (fl 0.1) 1 0 0"

section \<open>Properties\<close>

subsection \<open>Facts about one tick\<close>

lemma ctrl_actuate: "ctrl (st_sim (actuate s)) = F (compute s)"
  by (simp add: actuate_def Let_def set_ctrl0_def set_ctrl1_def set_ctrl2_def set_ctrl3_def)

lemma st_e_tick: "st_e (tick step s) = NdArray (e (compute s))"
  by (simp add: tick_def actuate_def Let_def)

lemma st_t_tick: "st_t (tick step s) = st_t s + 1"
  by (simp add: tick_def actuate_def Let_def)

lemma e_last_compute: "e_last (compute s) = st_e s"
  by (simp add: compute_def Let_def split: prod.splits)

lemma e_dot_compute: "e_dot (compute s) = vdiv (sub_pyval (e (compute s)) (st_e s)) dt"
  by (simp add: compute_def Let_def split: prod.splits)

lemma u_compute: "u (compute s) = control_output (e (compute s)) (e_dot (compute s))"
  by (simp add: compute_def Let_def split: prod.splits)



lemma mix_expand:
  "at0 (matmul C_R w) = at0 w / 4 + 5 / 2 * at1 w - 5 / 2 * at2 w - 5 / 2 * at3 w"
  "at1 (matmul C_R w) = at0 w / 4 - 5 / 2 * at1 w - 5 / 2 * at2 w + 5 / 2 * at3 w"
  "at2 (matmul C_R w) = at0 w / 4 - 5 / 2 * at1 w + 5 / 2 * at2 w - 5 / 2 * at3 w"
  "at3 (matmul C_R w) = at0 w / 4 + 5 / 2 * at1 w + 5 / 2 * at2 w + 5 / 2 * at3 w"
  by (simp_all add: matmul_def dot_def C_R_def a_rotor_def b_rotor_def c_rotor_def
      L_arm_def C_const_def)

text \<open>
  \<^bold>\<open>C1\<close>. On every tick the four commands written to \<open>sim.data.ctrl\<close> are
  \<open>C_R \<cdot> (K_p\<cdot>e + K_d\<cdot>e_dot + compensation on channel 0)\<close> with
  \<open>e_dot = (e - e_last)/dt\<close>: the value of the function \<open>F_law\<close> at the tick's
  error, the retained previous error and \<open>dt\<close>, and of nothing else.
\<close>

theorem actuate_writes_F_law:
  "ctrl (st_sim (actuate s)) = F_law (e (compute s)) (st_e s) dt"
  by (simp add: ctrl_actuate F_law_def compute_def control_output_def Let_def split: prod.splits)

text \<open>
  \<^bold>\<open>C2\<close>. Every tick's \<open>u\<close> is the control output of its \<open>e\<close> and \<open>e_dot\<close>, and
  for every error \<open>ev\<close> and derivative \<open>ed\<close>, lines 149 and 150 leave
  \<open>2 \<cdot> (K_p\<cdot>ev + K_d\<cdot>ed)[0] + mass*gravity\<close> in the altitude channel and
  \<open>(K_p\<cdot>ev + K_d\<cdot>ed)[i]\<close> in the channels 1 to 3.
\<close>

theorem control_output_doubles_altitude_channel:
  "u (compute s) = control_output (e (compute s)) (e_dot (compute s))
   \<and> control_output ev ed =
       Vec4 (2 * at0 (vadd (matmul K_p ev) (matmul K_d ed)) + mass * gravity)
            (at1 (vadd (matmul K_p ev) (matmul K_d ed)))
            (at2 (vadd (matmul K_p ev) (matmul K_d ed)))
            (at3 (vadd (matmul K_p ev) (matmul K_d ed)))"
  by (simp add: u_compute control_output_def Let_def vadd_def)

text \<open>
  \<^bold>\<open>C3\<close>. For every rotation matrix \<open>R\<close> read from the simulator, the tick computes
  \<open>yaw = arctan2 R[1][0] R[0][0]\<close>,
  \<open>pitch = arctan2 (-R[2][0]) (sqrt (R[2][1]^2 + R[2][2]^2))\<close> and
  \<open>roll = arctan2 R[2][1] R[2][2]\<close>, and the state vector is
  \<open>x = [z, roll, pitch, yaw]\<close> with \<open>z\<close> the third coordinate of the body's position.
\<close>

theorem compute_attitude_and_state_vector:
  "yaw (compute s) = arctan2 (c0 (r1 (body_xmat (st_sim s)))) (c0 (r0 (body_xmat (st_sim s))))
   \<and> pitch (compute s) =
       arctan2 (- c0 (r2 (body_xmat (st_sim s))))
         (sqrt ((c1 (r2 (body_xmat (st_sim s))))\<^sup>2 + (c2 (r2 (body_xmat (st_sim s))))\<^sup>2))
   \<and> roll (compute s) = arctan2 (c1 (r2 (body_xmat (st_sim s)))) (c2 (r2 (body_xmat (st_sim s))))
   \<and> x (compute s) =
       Vec4 (c2 (body_xipos (st_sim s))) (roll (compute s)) (pitch (compute s)) (yaw (compute s))"
  by (simp add: compute_def rpy_def Let_def)

text \<open>
  \<^bold>\<open>C7\<close>. Before the first tick the retained error is the integer 0, so the first
  tick's derivative is \<open>e/dt\<close> with \<open>dt = 0.001\<close>. On the tick after any tick, the
  retained error is the error that tick computed, and the derivative is the difference
  of the two errors over \<open>dt\<close>.
\<close>

theorem derivative_first_tick_and_after:
  "st_e (init sim0) = PyInt 0
   \<and> e_dot (compute (init sim0)) = vdiv (e (compute (init sim0))) dt
   \<and> dt = 0.001
   \<and> e_last (compute (tick step s)) = NdArray (e (compute s))
   \<and> e_dot (compute (tick step s)) = vdiv (vsub (e (compute (tick step s))) (e (compute s))) dt"
  by (simp add: e_dot_compute e_last_compute st_e_tick init_def dt_def)

text \<open>
  \<^bold>\<open>C6\<close>. With the identity as rotation matrix and the body at the target altitude
  \<open>x_d[0] = 0.5\<close>, the error is the zero vector; if the retained error is zero as well
  (the integer 0 of the start or a zero array), the derivative is zero and the control
  output before mixing is \<open>[mass*gravity, 0, 0, 0]\<close>.
\<close>

theorem level_at_target_gives_gravity_compensation:
  assumes "body_xmat (st_sim s) = Mat3 (Vec3 1 0 0) (Vec3 0 1 0) (Vec3 0 0 1)"
    and "c2 (body_xipos (st_sim s)) = at0 x_d"
  shows "at0 x_d = 0.5 \<and> e (compute s) = Vec4 0 0 0 0
    \<and> (st_e s = PyInt 0 \<or> st_e s = NdArray (Vec4 0 0 0 0) \<longrightarrow>
         e_dot (compute s) = Vec4 0 0 0 0 \<and> u (compute s) = Vec4 (mass * gravity) 0 0 0)"
proof -
  have z: "e (compute s) = Vec4 0 0 0 0"
    using assms by (simp add: compute_def rpy_def Let_def arctan2_def vsub_def x_d_def)
  have d: "e_dot (compute s) = Vec4 0 0 0 0"
    if "st_e s = PyInt 0 \<or> st_e s = NdArray (Vec4 0 0 0 0)"
    using that by (auto simp add: e_dot_compute z vdiv_def vsub_def)
  have "control_output (Vec4 0 0 0 0) (Vec4 0 0 0 0) = Vec4 (mass * gravity) 0 0 0"
    by (simp add: control_output_def Let_def vadd_def matmul_def dot_def)
  then show ?thesis
    using z d by (simp add: u_compute x_d_def)
qed

theorem level_at_target_gives_gravity_compensation_witness:
  "e (compute (init (sim_level 0.5))) = Vec4 0 0 0 0
   \<and> u (compute (init (sim_level 0.5))) = Vec4 (mass * gravity) 0 0 0"
  using level_at_target_gives_gravity_compensation [of "init (sim_level 0.5)"]
  by (simp add: init_def sim_level_def x_d_def)

subsection \<open>The loop\<close>

lemma st_t_funpow: "st_t ((tick step ^^ n) s) = st_t s + int n"
  by (induction n) (simp_all add: st_t_tick)

lemma loop_unroll:
  assumes "getenv env ''TESTING'' \<noteq> None"
  shows "st_t s + int n = 100 \<Longrightarrow> loop step env s = Some ((tick step ^^ Suc n) s)"
proof (induction n arbitrary: s)
  case 0
  then show ?case using assms
    by (subst loop.simps) (simp add: Let_def st_t_tick)
next
  case (Suc n)
  have "st_t (tick step s) + int n = 100"
    using Suc.prems by (simp add: st_t_tick)
  then have "loop step env (tick step s) = Some ((tick step ^^ Suc n) (tick step s))"
    by (rule Suc.IH)
  moreover have "\<not> 100 < st_t (tick step s)"
    using Suc.prems by (simp add: st_t_tick)
  ultimately show ?case
    by (subst loop.simps) (simp add: Let_def funpow_swap1)
qed

lemma loop_init_testing:
  assumes "getenv env ''TESTING'' \<noteq> None"
  shows "loop step env (init sim0) = Some ((tick step ^^ 101) (init sim0))"
proof -
  have "st_t (init sim0) + int 100 = 100" by (simp add: init_def)
  then have "loop step env (init sim0) = Some ((tick step ^^ Suc 100) (init sim0))"
    by (rule loop_unroll [OF assms])
  then show ?thesis by simp
qed





text \<open>
  \<^bold>\<open>C10\<close>. With \<open>TESTING\<close> set the body runs exactly 101 times: \<open>t\<close> starts at 0,
  the actuator writes leave it alone and each pass adds one after them, so \<open>t\<close> is the
  number of passes done; \<open>t > 100\<close> fails after each of the first 100 passes and holds
  after pass 101, where the loop leaves.
\<close>

theorem loop_runs_101_ticks:
  assumes "getenv env ''TESTING'' \<noteq> None"
  shows "st_t (init sim0) = 0
    \<and> st_t (actuate s) = st_t s \<and> st_t (tick step s) = st_t s + 1
    \<and> (\<forall>n. st_t ((tick step ^^ n) (init sim0)) = int n)
    \<and> (\<forall>n\<le>100. \<not> 100 < st_t ((tick step ^^ n) (init sim0)))
    \<and> 100 < st_t ((tick step ^^ 101) (init sim0))
    \<and> loop step env (init sim0) = Some ((tick step ^^ 101) (init sim0))"
  using loop_init_testing [OF assms, of step sim0]
  by (simp add: st_t_funpow st_t_tick init_def actuate_def Let_def)

theorem loop_runs_101_ticks_witness:
  "st_t ((tick step_idle ^^ 101) (init (sim_level 0))) = 101
   \<and> \<not> 100 < st_t ((tick step_idle ^^ 100) (init (sim_level 0)))
   \<and> loop step_idle env_testing (init (sim_level 0)) = Some ((tick step_idle ^^ 101) (init (sim_level 0)))"
proof -
  have a: "getenv env_testing ''TESTING'' \<noteq> None"
    by (simp add: getenv_def env_testing_def)
  show ?thesis
    using loop_runs_101_ticks [OF a, of "sim_level 0" s_above step_idle] by simp
qed

subsection \<open>The sign of the written commands\<close>






subsection \<open>The round trip of the angles\<close>

lemma cos_neg_outside:
  assumes "pi / 2 < \<bar>t\<bar>" "\<bar>t\<bar> \<le> pi"
  shows "cos t < 0"
proof -
  have "cos \<bar>t\<bar> < cos (pi / 2)"
    using assms by (intro cos_monotone_0_pi) simp_all
  then show ?thesis by (simp add: abs_if split: if_splits)
qed

lemma arctan2_right: "0 < p \<Longrightarrow> arctan2 q p = arctan (q / p)"
  by (simp add: arctan2_def)

lemma arctan2_upper_left: "p < 0 \<Longrightarrow> 0 \<le> q \<Longrightarrow> arctan2 q p = arctan (q / p) + pi"
  by (simp add: arctan2_def)

lemma arctan2_lower_left: "p < 0 \<Longrightarrow> q < 0 \<Longrightarrow> arctan2 q p = arctan (q / p) - pi"
  by (simp add: arctan2_def)

lemma arctan2_polar:
  assumes r: "0 < r" and lo: "- pi < t" and hi: "t \<le> pi"
  shows "arctan2 (r * sin t) (r * cos t) = t"
proof -
  have quot: "r * sin t / (r * cos t) = tan t"
    using r by (simp add: tan_def)
  consider (mid) "- (pi / 2) < t" "t < pi / 2"
    | (top) "t = pi / 2" | (bot) "t = - (pi / 2)"
    | (left) "pi / 2 < t" | (right) "t < - (pi / 2)"
    by linarith
  then show ?thesis
  proof cases
    case mid
    then have "0 < cos t" by (rule cos_gt_zero_pi)
    then have "0 < r * cos t" using r by simp
    then have "arctan2 (r * sin t) (r * cos t) = arctan (r * sin t / (r * cos t))"
      by (rule arctan2_right)
    also have "\<dots> = arctan (tan t)" by (simp only: quot)
    also have "\<dots> = t" using mid by (rule arctan_tan)
    finally show ?thesis .
  next
    case top
    have "arctan2 (r * sin (pi / 2)) (r * cos (pi / 2)) = pi / 2"
      using r by (simp add: arctan2_def)
    then show ?thesis by (simp only: top)
  next
    case bot
    have "arctan2 (r * sin (- (pi / 2))) (r * cos (- (pi / 2))) = - (pi / 2)"
      using r by (simp add: arctan2_def)
    then show ?thesis by (simp only: bot)
  next
    case left
    then have "cos t < 0" using hi by (intro cos_neg_outside) simp_all
    then have c: "r * cos t < 0" using r by (simp add: mult_pos_neg)
    have "0 \<le> sin t" using left hi pi_gt_zero by (intro sin_ge_zero) linarith+
    then have s: "0 \<le> r * sin t" using r by simp
    have "arctan2 (r * sin t) (r * cos t) = arctan (r * sin t / (r * cos t)) + pi"
      using c s by (rule arctan2_upper_left)
    also have "\<dots> = arctan (tan t) + pi" by (simp only: quot)
    also have "tan t = tan (t - pi)"
      using tan_periodic_pi [of "t - pi"] by simp
    also have "arctan (tan (t - pi)) = t - pi"
      using left hi by (intro arctan_tan) linarith+
    finally show ?thesis by simp
  next
    case right
    then have "cos t < 0" using lo by (intro cos_neg_outside) simp_all
    then have c: "r * cos t < 0" using r by (simp add: mult_pos_neg)
    have "0 < sin (- t)" using right lo pi_gt_zero by (intro sin_gt_zero) linarith+
    then have "sin t < 0" by simp
    then have s: "r * sin t < 0" using r by (simp add: mult_pos_neg)
    have "arctan2 (r * sin t) (r * cos t) = arctan (r * sin t / (r * cos t)) - pi"
      using c s by (rule arctan2_lower_left)
    also have "\<dots> = arctan (tan t) - pi" by (simp only: quot)
    also have "tan t = tan (t + pi)" by simp
    also have "arctan (tan (t + pi)) = t + pi"
      using right lo by (intro arctan_tan) linarith+
    finally show ?thesis by simp
  qed
qed

text \<open>
  \<^bold>\<open>C8\<close>. For a roll and a yaw in \<open>(-pi, pi]\<close> and a pitch strictly between
  \<open>-pi/2\<close> and \<open>pi/2\<close>, the decomposition of lines 129 to 131 applied to the rotation
  matrix of the three angles gives the three angles back.
\<close>

theorem rpy_round_trip:
  assumes "- pi < phi" "phi \<le> pi" "- (pi / 2) < theta" "theta < pi / 2" "- pi < psi" "psi \<le> pi"
  shows "rpy (rotmat_of_rpy phi theta psi) = (psi, theta, phi)"
proof -
  have c: "0 < cos theta" using assms by (intro cos_gt_zero_pi)
  have y: "arctan2 (sin psi * cos theta) (cos psi * cos theta) = psi"
    using arctan2_polar [OF c, of psi] assms by (simp add: mult.commute)
  have rl: "arctan2 (cos theta * sin phi) (cos theta * cos phi) = phi"
    using arctan2_polar [OF c, of phi] assms by simp
  have "(cos theta * sin phi)\<^sup>2 + (cos theta * cos phi)\<^sup>2 = (cos theta)\<^sup>2 * ((sin phi)\<^sup>2 + (cos phi)\<^sup>2)"
    by (simp only: power_mult_distrib distrib_left)
  also have "\<dots> = (cos theta)\<^sup>2"
    by (simp only: sin_cos_squared_add mult_1_right)
  finally have "sqrt ((cos theta * sin phi)\<^sup>2 + (cos theta * cos phi)\<^sup>2) = sqrt ((cos theta)\<^sup>2)"
    by (rule arg_cong)
  then have "sqrt ((cos theta * sin phi)\<^sup>2 + (cos theta * cos phi)\<^sup>2) = cos theta"
    using c by (simp only: real_sqrt_abs abs_of_pos)
  moreover have "arctan2 (sin theta) (cos theta) = theta"
    using arctan2_polar [of 1 theta] assms by simp
  ultimately have p: "arctan2 (sin theta) (sqrt ((cos theta * sin phi)\<^sup>2 + (cos theta * cos phi)\<^sup>2)) = theta"
    by simp
  show ?thesis
    by (simp add: rpy_def rotmat_of_rpy_def Let_def y rl p)
qed

theorem rpy_round_trip_witness:
  "rpy (rotmat_of_rpy (pi / 2) 0 pi) = (pi, 0, pi / 2)"
  using rpy_round_trip [of "pi / 2" 0 pi] by simp

subsection \<open>The sum of the rotor commands\<close>

text \<open>
  Evaluating \<open>fl\<close> on numerals: the float64 constants of the script, and the commands
  at the input \<open>[0.1, 1.0, 0.0, 0.0]\<close>.
\<close>

lemma scale_exp_numeral:
  "scale_exp (numeral n) m k =
     (if m < 2 ^ 52 then scale_exp (pred_numeral n) (2 * m) (k + 1)
      else if 2 ^ 53 \<le> m then scale_exp (pred_numeral n) (m / 2) (k - 1)
      else k)"
  by (simp add: numeral_eq_Suc)

lemmas fl_eval = fl_def scale_exp_numeral pow2_def round_even_def Let_def

lemma fl_tenth: "fl (1 / 10) = 3602879701896397 / 36028797018963968"
  by (simp add: fl_eval)

lemma fl_quarter: "fl (1 / 4) = 1 / 4"
  by (simp add: fl_eval)

lemma fl_four_tenths: "fl (3602879701896397 / 9007199254740992) = 3602879701896397 / 9007199254740992"
  by (simp add: fl_eval)

lemma fl_recip: "fl (9007199254740992 / 3602879701896397) = 5 / 2"
  by (simp add: fl_eval)

lemma L_f64_val: "L_f64 = 3602879701896397 / 36028797018963968"
  by (simp add: L_f64_def fl_tenth)

lemma a_f64_val: "a_f64 = 1 / 4"
  by (simp add: a_f64_def fl_quarter)

lemma b_f64_val: "b_f64 = 5 / 2"
  by (simp add: b_f64_def fdiv_def fmul_def L_f64_val fl_four_tenths fl_recip)

lemma c_f64_val: "c_f64 = 5 / 2"
  by (simp add: c_f64_def fdiv_def fmul_def C_f64_def fl_tenth fl_four_tenths fl_recip)

lemma C_R_f64_exact: "C_R_f64 = C_R"
  by (simp add: C_R_f64_def C_R_def a_f64_val b_f64_val c_f64_val
      a_rotor_def b_rotor_def c_rotor_def L_arm_def C_const_def)

lemma u_tenth_val: "u_tenth = Vec4 (3602879701896397 / 36028797018963968) 1 0 0"
  by (simp add: u_tenth_def fl_tenth)

lemma fl_zero: "fl 0 = 0"
  by (simp add: fl_def)

lemma fl_five_halves: "fl (5 / 2) = 5 / 2" "fl (- (5 / 2)) = - (5 / 2)"
  by (simp_all add: fl_eval)

lemma fl_steps:
  "fl (3602879701896397 / 144115188075855872) = 3602879701896397 / 144115188075855872"
  "fl (363890849891536077 / 144115188075855872) = 5685794529555251 / 2251799813685248"
  "fl (5685794529555251 / 2251799813685248) = 5685794529555251 / 2251799813685248"
  "fl (- (356685090487743283 / 144115188075855872)) = - (5573204538870989 / 2251799813685248)"
  "fl (- (5573204538870989 / 2251799813685248)) = - (5573204538870989 / 2251799813685248)"
  "fl (56294995342131 / 1125899906842624) = 56294995342131 / 1125899906842624"
  "fl (- (5460614548186727 / 2251799813685248)) = - (5460614548186727 / 2251799813685248)"
  "fl (56294995342131 / 562949953421312) = 56294995342131 / 562949953421312"
  by (simp_all add: fl_eval)

lemma F_tenth:
  "matmul_f64 C_R_f64 u_tenth =
     Vec4 (5685794529555251 / 2251799813685248) (- (5573204538870989 / 2251799813685248))
          (- (5573204538870989 / 2251799813685248)) (5685794529555251 / 2251799813685248)"
  by (simp add: C_R_f64_def a_f64_val b_f64_val c_f64_val u_tenth_val
      matmul_f64_def dot_f64_def fadd_def fmul_def fl_zero fl_five_halves fl_steps)

text \<open>
  The rounding error of \<open>fl\<close>: relative \<open>2^-53\<close>, or \<open>eta\<close> in the subnormal range.
\<close>

lemma eta_pos: "0 < eta"
  by (simp add: eta_def)

lemma round_even_err: "\<bar>of_int (round_even z) - z\<bar> \<le> 1 / 2"
proof -
  have "of_int \<lfloor>z\<rfloor> \<le> z" "z < of_int \<lfloor>z\<rfloor> + 1" by linarith+
  then show ?thesis
    by (simp add: round_even_def Let_def)
qed

lemma pow2_pos: "0 < pow2 k"
  by (simp add: pow2_def)

lemma pow2_0: "pow2 0 = 1"
  by (simp add: pow2_def)

lemma pow2_eq_powi: "pow2 k = 2 powi k"
  by (simp add: pow2_def power_int_def power_one_over inverse_eq_divide)

lemma pow2_Suc: "pow2 (k + 1) = 2 * pow2 k"
  by (simp add: pow2_eq_powi power_int_add)

lemma pow2_pred: "pow2 (k - 1) = pow2 k / 2"
  using pow2_Suc [of "k - 1"] by simp

lemma pow2_1074: "pow2 1074 = 2 ^ 1074"
  by (simp add: pow2_def)

lemma scale_exp_normal: "2 ^ 52 \<le> m \<Longrightarrow> m < 2 ^ 53 \<Longrightarrow> scale_exp n m k = k"
  by (cases n) simp_all

lemma scale_exp_halving:
  "2 ^ 52 \<le> m \<Longrightarrow> 2 ^ 52 \<le> m * pow2 (scale_exp n m k - k) \<and> scale_exp n m k \<le> k"
proof (induction n arbitrary: m k)
  case 0
  then show ?case by (simp add: pow2_0)
next
  case (Suc n)
  show ?case
  proof (cases "2 ^ 53 \<le> m")
    case True
    then have h: "2 ^ 52 \<le> m / 2" by simp
    define r where "r = scale_exp n (m / 2) (k - 1)"
    have "pow2 (r - k) = pow2 (r - (k - 1)) / 2"
      using pow2_pred [of "r - (k - 1)"] by (simp add: algebra_simps)
    then have a: "m * pow2 (r - k) = m / 2 * pow2 (r - (k - 1))" by simp
    have ih: "2 ^ 52 \<le> m / 2 * pow2 (r - (k - 1)) \<and> r \<le> k - 1"
      unfolding r_def by (rule Suc.IH [OF h])
    have "2 ^ 52 \<le> m * pow2 (r - k)"
      unfolding a using ih by (rule conjunct1)
    moreover have "r \<le> k" using ih by linarith
    moreover have "scale_exp (Suc n) m k = r"
      using True by (simp add: r_def)
    ultimately show ?thesis by (simp only: simp_thms)
  next
    case False
    then show ?thesis using Suc.prems by (simp add: pow2_0)
  qed
qed

lemma scale_exp_doubling:
  "0 < m \<Longrightarrow> m < 2 ^ 52 \<Longrightarrow>
     2 ^ 52 \<le> m * pow2 (scale_exp n m k - k) \<or> scale_exp n m k = k + int n"
proof (induction n arbitrary: m k)
  case 0
  then show ?case by simp
next
  case (Suc n)
  define r where "r = scale_exp n (2 * m) (k + 1)"
  have step: "scale_exp (Suc n) m k = r"
    using Suc.prems by (simp add: r_def)
  have "pow2 (r - k) = 2 * pow2 (r - (k + 1))"
    using pow2_Suc [of "r - (k + 1)"] by (simp add: algebra_simps)
  then have eq: "m * pow2 (r - k) = 2 * m * pow2 (r - (k + 1))" by simp
  show ?case
  proof (cases "2 * m < 2 ^ 52")
    case True
    have "0 < 2 * m" using Suc.prems by simp
    from Suc.IH [OF this True, of "k + 1"]
    have "2 ^ 52 \<le> 2 * m * pow2 (r - (k + 1)) \<or> r = k + 1 + int n"
      by (simp add: r_def)
    then show ?thesis
      unfolding step using eq by auto
  next
    case False
    then have "2 ^ 52 \<le> 2 * m" "2 * m < 2 ^ 53" using Suc.prems by simp_all
    then have "r = k + 1" unfolding r_def by (rule scale_exp_normal)
    then have "m * pow2 (r - k) = 2 * m" by (simp add: pow2_def)
    then show ?thesis
      unfolding step using False by simp
  qed
qed

lemma fl_exponent:
  assumes "y \<noteq> 0"
  defines "k \<equiv> min (scale_exp 2200 \<bar>y\<bar> 0) 1074"
  shows "2 ^ 52 \<le> \<bar>y\<bar> * pow2 k \<or> k = 1074"
proof (cases "2 ^ 52 \<le> \<bar>y\<bar>")
  case True
  from scale_exp_halving [OF this, of 2200 0] show ?thesis
    by (simp add: k_def min_def)
next
  case False
  then have "0 < \<bar>y\<bar>" "\<bar>y\<bar> < 2 ^ 52" using assms(1) by simp_all
  from scale_exp_doubling [OF this, of 2200 0] show ?thesis
    by (auto simp add: k_def min_def)
qed

lemma fl_err: "\<bar>fl y - y\<bar> \<le> \<bar>y\<bar> / 2 ^ 53 + eta"
proof (cases "y = 0")
  case True
  then show ?thesis using eta_pos by (simp add: fl_def)
next
  case False
  define k where "k = min (scale_exp 2200 \<bar>y\<bar> 0) 1074"
  define s where "s = pow2 k"
  have s: "0 < s" by (simp add: s_def pow2_pos)
  have fl: "fl y = of_int (round_even (y * s)) / s"
    using False by (simp add: fl_def Let_def k_def s_def)
  have "\<bar>of_int (round_even (y * s)) - y * s\<bar> \<le> 1 / 2" by (rule round_even_err)
  then have "\<bar>of_int (round_even (y * s)) - y * s\<bar> / s \<le> (1 / 2) / s"
    using s by (intro divide_right_mono) simp_all
  moreover have "\<bar>of_int (round_even (y * s)) - y * s\<bar> / s = \<bar>fl y - y\<bar>"
  proof -
    have "fl y - y = (of_int (round_even (y * s)) - y * s) / s"
      using s by (simp add: fl diff_divide_distrib)
    then show ?thesis using s by (simp add: abs_divide)
  qed
  ultimately have e: "\<bar>fl y - y\<bar> \<le> 1 / (2 * s)" by simp
  from fl_exponent [OF False] have "2 ^ 52 \<le> \<bar>y\<bar> * s \<or> k = 1074"
    by (simp add: k_def s_def)
  then show ?thesis
  proof
    assume "2 ^ 52 \<le> \<bar>y\<bar> * s"
    then have "1 / (2 * s) \<le> \<bar>y\<bar> / 2 ^ 53"
      using s by (simp add: field_simps)
    with e eta_pos show ?thesis by linarith
  next
    assume "k = 1074"
    then have "1 / (2 * s) = eta"
      by (simp add: s_def pow2_1074 eta_def)
    with e show ?thesis by simp
  qed
qed

lemma fmul_err: "\<bar>fmul p q - p * q\<bar> \<le> \<bar>p * q\<bar> / 2 ^ 53 + eta"
  unfolding fmul_def by (rule fl_err)

lemma fadd_step:
  assumes "\<bar>a' - a\<bar> \<le> ea" "\<bar>b' - b\<bar> \<le> eb" "\<bar>a\<bar> \<le> A" "\<bar>b\<bar> \<le> B"
  shows "\<bar>fadd a' b' - (a + b)\<bar> \<le> 2 * (ea + eb) + (A + B) / 2 ^ 53 + eta"
proof -
  define t where "t = \<bar>a' + b'\<bar> / 2 ^ 53"
  define g where "g = (A + B) / 2 ^ 53"
  define h where "h = (ea + eb) / 2 ^ 53"
  have r: "\<bar>fadd a' b' - (a' + b')\<bar> \<le> t + eta"
    unfolding fadd_def t_def by (rule fl_err)
  have "\<bar>a' + b'\<bar> \<le> A + B + (ea + eb)"
    using assms by argo
  then have "t \<le> g + h"
    by (simp add: t_def g_def h_def field_simps)
  moreover have "0 \<le> ea + eb" using assms by argo
  then have "h \<le> ea + eb"
    by (simp add: h_def field_simps)
  moreover have "\<bar>fadd a' b' - (a + b)\<bar> \<le> \<bar>fadd a' b' - (a' + b')\<bar> + (ea + eb)"
    using assms by argo
  ultimately have "\<bar>fadd a' b' - (a + b)\<bar> \<le> 2 * (ea + eb) + g + eta"
    using r by argo
  then show ?thesis by (simp only: g_def)
qed

lemma dot_f64_err:
  "\<bar>dot_f64 r v - dot r v\<bar>
     \<le> 15 * ((\<bar>at0 r * at0 v\<bar> + \<bar>at1 r * at1 v\<bar> + \<bar>at2 r * at2 v\<bar> + \<bar>at3 r * at3 v\<bar>) / 2 ^ 53)
       + 29 * eta"
proof -
  define x0 x1 x2 x3 where "x0 = at0 r * at0 v" and "x1 = at1 r * at1 v"
    and "x2 = at2 r * at2 v" and "x3 = at3 r * at3 v"
  define p0 p1 p2 p3 where "p0 = fmul (at0 r) (at0 v)" and "p1 = fmul (at1 r) (at1 v)"
    and "p2 = fmul (at2 r) (at2 v)" and "p3 = fmul (at3 r) (at3 v)"
  define s1 s2 s3 where "s1 = fadd p0 p1" and "s2 = fadd s1 p2" and "s3 = fadd s2 p3"
  define d0 d1 d2 d3 where "d0 = \<bar>x0\<bar> / 2 ^ 53" and "d1 = \<bar>x1\<bar> / 2 ^ 53"
    and "d2 = \<bar>x2\<bar> / 2 ^ 53" and "d3 = \<bar>x3\<bar> / 2 ^ 53"
  have pos: "0 \<le> d0" "0 \<le> d1" "0 \<le> d2" "0 \<le> d3"
    by (simp_all add: d0_def d1_def d2_def d3_def)
  have e0: "\<bar>p0 - x0\<bar> \<le> d0 + eta" unfolding p0_def x0_def d0_def by (rule fmul_err)
  have e1: "\<bar>p1 - x1\<bar> \<le> d1 + eta" unfolding p1_def x1_def d1_def by (rule fmul_err)
  have e2: "\<bar>p2 - x2\<bar> \<le> d2 + eta" unfolding p2_def x2_def d2_def by (rule fmul_err)
  have e3: "\<bar>p3 - x3\<bar> \<le> d3 + eta" unfolding p3_def x3_def d3_def by (rule fmul_err)
  have g1: "(\<bar>x0\<bar> + \<bar>x1\<bar>) / 2 ^ 53 = d0 + d1"
    by (simp only: d0_def d1_def add_divide_distrib)
  have g2: "(\<bar>x0\<bar> + \<bar>x1\<bar> + \<bar>x2\<bar>) / 2 ^ 53 = d0 + d1 + d2"
    by (simp only: d0_def d1_def d2_def add_divide_distrib)
  have g3: "(\<bar>x0\<bar> + \<bar>x1\<bar> + \<bar>x2\<bar> + \<bar>x3\<bar>) / 2 ^ 53 = d0 + d1 + d2 + d3"
    by (simp only: d0_def d1_def d2_def d3_def add_divide_distrib)
  have "\<bar>s1 - (x0 + x1)\<bar> \<le> 2 * ((d0 + eta) + (d1 + eta)) + (\<bar>x0\<bar> + \<bar>x1\<bar>) / 2 ^ 53 + eta"
    unfolding s1_def by (rule fadd_step [OF e0 e1 order_refl order_refl])
  then have b1: "\<bar>s1 - (x0 + x1)\<bar> \<le> 3 * (d0 + d1) + 5 * eta"
    unfolding g1 by argo
  have "\<bar>s2 - (x0 + x1 + x2)\<bar>
      \<le> 2 * ((3 * (d0 + d1) + 5 * eta) + (d2 + eta)) + (\<bar>x0\<bar> + \<bar>x1\<bar> + \<bar>x2\<bar>) / 2 ^ 53 + eta"
    unfolding s2_def by (rule fadd_step [OF b1 e2 abs_triangle_ineq order_refl])
  then have b2: "\<bar>s2 - (x0 + x1 + x2)\<bar> \<le> 7 * (d0 + d1 + d2) + 13 * eta"
    unfolding g2 using pos by argo
  have t012: "\<bar>x0 + x1 + x2\<bar> \<le> \<bar>x0\<bar> + \<bar>x1\<bar> + \<bar>x2\<bar>"
    by argo
  have "\<bar>s3 - (x0 + x1 + x2 + x3)\<bar>
      \<le> 2 * ((7 * (d0 + d1 + d2) + 13 * eta) + (d3 + eta))
        + (\<bar>x0\<bar> + \<bar>x1\<bar> + \<bar>x2\<bar> + \<bar>x3\<bar>) / 2 ^ 53 + eta"
    unfolding s3_def by (rule fadd_step [OF b2 e3 t012 order_refl])
  then have "\<bar>s3 - (x0 + x1 + x2 + x3)\<bar> \<le> 15 * (d0 + d1 + d2 + d3) + 29 * eta"
    unfolding g3 using pos by argo
  then have "\<bar>s3 - (x0 + x1 + x2 + x3)\<bar>
      \<le> 15 * ((\<bar>x0\<bar> + \<bar>x1\<bar> + \<bar>x2\<bar> + \<bar>x3\<bar>) / 2 ^ 53) + 29 * eta"
    by (simp only: g3)
  then show ?thesis
    by (simp only: dot_f64_def dot_def s3_def s2_def s1_def p0_def p1_def p2_def p3_def
        x0_def x1_def x2_def x3_def)
qed

lemma fsum4_err:
  "\<bar>fadd (fadd (fadd a b) c) d - (a + b + c + d)\<bar>
     \<le> 7 * ((\<bar>a\<bar> + \<bar>b\<bar> + \<bar>c\<bar> + \<bar>d\<bar>) / 2 ^ 53) + 7 * eta"
proof -
  define da db dc dd where "da = \<bar>a\<bar> / 2 ^ 53" and "db = \<bar>b\<bar> / 2 ^ 53"
    and "dc = \<bar>c\<bar> / 2 ^ 53" and "dd = \<bar>d\<bar> / 2 ^ 53"
  have pos: "0 \<le> da" "0 \<le> db" "0 \<le> dc" "0 \<le> dd"
    by (simp_all add: da_def db_def dc_def dd_def)
  have g1: "(\<bar>a\<bar> + \<bar>b\<bar>) / 2 ^ 53 = da + db"
    by (simp only: da_def db_def add_divide_distrib)
  have g2: "(\<bar>a\<bar> + \<bar>b\<bar> + \<bar>c\<bar>) / 2 ^ 53 = da + db + dc"
    by (simp only: da_def db_def dc_def add_divide_distrib)
  have g3: "(\<bar>a\<bar> + \<bar>b\<bar> + \<bar>c\<bar> + \<bar>d\<bar>) / 2 ^ 53 = da + db + dc + dd"
    by (simp only: da_def db_def dc_def dd_def add_divide_distrib)
  have z: "\<bar>a - a\<bar> \<le> 0" "\<bar>b - b\<bar> \<le> 0" "\<bar>c - c\<bar> \<le> 0" "\<bar>d - d\<bar> \<le> 0"
    by simp_all
  have "\<bar>fadd a b - (a + b)\<bar> \<le> 2 * (0 + 0) + (\<bar>a\<bar> + \<bar>b\<bar>) / 2 ^ 53 + eta"
    by (rule fadd_step [OF z(1) z(2) order_refl order_refl])
  then have b1: "\<bar>fadd a b - (a + b)\<bar> \<le> da + db + eta"
    unfolding g1 by argo
  have "\<bar>fadd (fadd a b) c - (a + b + c)\<bar>
      \<le> 2 * ((da + db + eta) + 0) + (\<bar>a\<bar> + \<bar>b\<bar> + \<bar>c\<bar>) / 2 ^ 53 + eta"
    by (rule fadd_step [OF b1 z(3) abs_triangle_ineq order_refl])
  then have b2: "\<bar>fadd (fadd a b) c - (a + b + c)\<bar> \<le> 3 * (da + db + dc) + 3 * eta"
    unfolding g2 using pos by argo
  have t: "\<bar>a + b + c\<bar> \<le> \<bar>a\<bar> + \<bar>b\<bar> + \<bar>c\<bar>" by argo
  have "\<bar>fadd (fadd (fadd a b) c) d - (a + b + c + d)\<bar>
      \<le> 2 * ((3 * (da + db + dc) + 3 * eta) + 0) + (\<bar>a\<bar> + \<bar>b\<bar> + \<bar>c\<bar> + \<bar>d\<bar>) / 2 ^ 53 + eta"
    by (rule fadd_step [OF b2 z(4) t order_refl])
  then have "\<bar>fadd (fadd (fadd a b) c) d - (a + b + c + d)\<bar> \<le> 7 * (da + db + dc + dd) + 7 * eta"
    unfolding g3 using pos by argo
  then show ?thesis by (simp only: g3)
qed

lemma C_R_row_weights:
  "\<bar>at0 (row0 C_R) * at0 w\<bar> + \<bar>at1 (row0 C_R) * at1 w\<bar> + \<bar>at2 (row0 C_R) * at2 w\<bar>
     + \<bar>at3 (row0 C_R) * at3 w\<bar> = \<bar>at0 w\<bar> / 4 + 5 / 2 * (\<bar>at1 w\<bar> + \<bar>at2 w\<bar> + \<bar>at3 w\<bar>)"
  "\<bar>at0 (row1 C_R) * at0 w\<bar> + \<bar>at1 (row1 C_R) * at1 w\<bar> + \<bar>at2 (row1 C_R) * at2 w\<bar>
     + \<bar>at3 (row1 C_R) * at3 w\<bar> = \<bar>at0 w\<bar> / 4 + 5 / 2 * (\<bar>at1 w\<bar> + \<bar>at2 w\<bar> + \<bar>at3 w\<bar>)"
  "\<bar>at0 (row2 C_R) * at0 w\<bar> + \<bar>at1 (row2 C_R) * at1 w\<bar> + \<bar>at2 (row2 C_R) * at2 w\<bar>
     + \<bar>at3 (row2 C_R) * at3 w\<bar> = \<bar>at0 w\<bar> / 4 + 5 / 2 * (\<bar>at1 w\<bar> + \<bar>at2 w\<bar> + \<bar>at3 w\<bar>)"
  "\<bar>at0 (row3 C_R) * at0 w\<bar> + \<bar>at1 (row3 C_R) * at1 w\<bar> + \<bar>at2 (row3 C_R) * at2 w\<bar>
     + \<bar>at3 (row3 C_R) * at3 w\<bar> = \<bar>at0 w\<bar> / 4 + 5 / 2 * (\<bar>at1 w\<bar> + \<bar>at2 w\<bar> + \<bar>at3 w\<bar>)"
  by (simp_all add: C_R_def a_rotor_def b_rotor_def c_rotor_def L_arm_def C_const_def abs_mult)

lemma matmul_f64_err:
  fixes w :: vec4
  defines "D \<equiv> (\<bar>at0 w\<bar> / 4 + 5 / 2 * (\<bar>at1 w\<bar> + \<bar>at2 w\<bar> + \<bar>at3 w\<bar>)) / 2 ^ 53"
  shows "\<bar>at0 (matmul_f64 C_R_f64 w) - at0 (matmul C_R w)\<bar> \<le> 15 * D + 29 * eta"
    and "\<bar>at1 (matmul_f64 C_R_f64 w) - at1 (matmul C_R w)\<bar> \<le> 15 * D + 29 * eta"
    and "\<bar>at2 (matmul_f64 C_R_f64 w) - at2 (matmul C_R w)\<bar> \<le> 15 * D + 29 * eta"
    and "\<bar>at3 (matmul_f64 C_R_f64 w) - at3 (matmul C_R w)\<bar> \<le> 15 * D + 29 * eta"
  using dot_f64_err [of "row0 C_R" w] dot_f64_err [of "row1 C_R" w]
    dot_f64_err [of "row2 C_R" w] dot_f64_err [of "row3 C_R" w]
  unfolding C_R_row_weights D_def
  by (simp_all add: C_R_f64_exact matmul_f64_def matmul_def)

lemma float64_exact_sum_bound:
  "\<bar>at0 (matmul_f64 C_R_f64 w) + at1 (matmul_f64 C_R_f64 w) + at2 (matmul_f64 C_R_f64 w)
      + at3 (matmul_f64 C_R_f64 w) - at0 w\<bar>
     \<le> 60 * ((\<bar>at0 w\<bar> / 4 + 5 / 2 * (\<bar>at1 w\<bar> + \<bar>at2 w\<bar> + \<bar>at3 w\<bar>)) / 2 ^ 53) + 116 * eta"
proof -
  have "at0 (matmul C_R w) + at1 (matmul C_R w) + at2 (matmul C_R w) + at3 (matmul C_R w) = at0 w"
    by (simp add: mix_expand)
  then show ?thesis
    using matmul_f64_err [of w] by argo
qed

lemma mix_abs_le:
  "\<bar>at0 (matmul C_R w)\<bar> \<le> \<bar>at0 w\<bar> / 4 + 5 / 2 * (\<bar>at1 w\<bar> + \<bar>at2 w\<bar> + \<bar>at3 w\<bar>)"
  "\<bar>at1 (matmul C_R w)\<bar> \<le> \<bar>at0 w\<bar> / 4 + 5 / 2 * (\<bar>at1 w\<bar> + \<bar>at2 w\<bar> + \<bar>at3 w\<bar>)"
  "\<bar>at2 (matmul C_R w)\<bar> \<le> \<bar>at0 w\<bar> / 4 + 5 / 2 * (\<bar>at1 w\<bar> + \<bar>at2 w\<bar> + \<bar>at3 w\<bar>)"
  "\<bar>at3 (matmul C_R w)\<bar> \<le> \<bar>at0 w\<bar> / 4 + 5 / 2 * (\<bar>at1 w\<bar> + \<bar>at2 w\<bar> + \<bar>at3 w\<bar>)"
  unfolding mix_expand by argo+

lemma float64_rounded_sum_bound:
  "\<bar>fadd (fadd (fadd (at0 (matmul_f64 C_R_f64 w)) (at1 (matmul_f64 C_R_f64 w)))
        (at2 (matmul_f64 C_R_f64 w))) (at3 (matmul_f64 C_R_f64 w)) - at0 w\<bar>
     \<le> 89 * ((\<bar>at0 w\<bar> / 4 + 5 / 2 * (\<bar>at1 w\<bar> + \<bar>at2 w\<bar> + \<bar>at3 w\<bar>)) / 2 ^ 53) + 124 * eta"
proof -
  define X where "X = \<bar>at0 w\<bar> / 4 + 5 / 2 * (\<bar>at1 w\<bar> + \<bar>at2 w\<bar> + \<bar>at3 w\<bar>)"
  define D where "D = X / 2 ^ 53"
  define F0 F1 F2 F3 where "F0 = at0 (matmul_f64 C_R_f64 w)" and "F1 = at1 (matmul_f64 C_R_f64 w)"
    and "F2 = at2 (matmul_f64 C_R_f64 w)" and "F3 = at3 (matmul_f64 C_R_f64 w)"
  define Q where "Q = (\<bar>F0\<bar> + \<bar>F1\<bar> + \<bar>F2\<bar> + \<bar>F3\<bar>) / 2 ^ 53"
  have X: "0 \<le> X" by (simp add: X_def)
  then have D: "0 \<le> D" by (simp add: D_def)
  have err: "\<bar>F0 - at0 (matmul C_R w)\<bar> \<le> 15 * D + 29 * eta"
    "\<bar>F1 - at1 (matmul C_R w)\<bar> \<le> 15 * D + 29 * eta"
    "\<bar>F2 - at2 (matmul C_R w)\<bar> \<le> 15 * D + 29 * eta"
    "\<bar>F3 - at3 (matmul C_R w)\<bar> \<le> 15 * D + 29 * eta"
    unfolding F0_def F1_def F2_def F3_def D_def X_def by (rule matmul_f64_err)+
  have mag: "\<bar>at0 (matmul C_R w)\<bar> \<le> X" "\<bar>at1 (matmul C_R w)\<bar> \<le> X"
    "\<bar>at2 (matmul C_R w)\<bar> \<le> X" "\<bar>at3 (matmul C_R w)\<bar> \<le> X"
    unfolding X_def by (rule mix_abs_le)+
  have "\<bar>F0\<bar> + \<bar>F1\<bar> + \<bar>F2\<bar> + \<bar>F3\<bar> \<le> 4 * X + 60 * D + 116 * eta"
    using err mag by argo
  then have "Q \<le> (4 * X + 60 * D + 116 * eta) / 2 ^ 53"
    unfolding Q_def by (intro divide_right_mono) simp_all
  also have "\<dots> = 4 * D + 60 * (D / 2 ^ 53) + 116 * (eta / 2 ^ 53)"
    by (simp add: D_def add_divide_distrib)
  finally have q: "Q \<le> 4 * D + 60 * (D / 2 ^ 53) + 116 * (eta / 2 ^ 53)" .
  have small: "D / 2 ^ 53 \<le> D / 420" "eta / 2 ^ 53 \<le> eta / 812"
    using D eta_pos by (simp_all add: field_simps)
  have seven: "7 * Q \<le> 29 * D + eta"
    using q small by argo
  have "\<bar>fadd (fadd (fadd F0 F1) F2) F3 - (F0 + F1 + F2 + F3)\<bar> \<le> 7 * Q + 7 * eta"
    unfolding Q_def by (rule fsum4_err)
  moreover have "at0 (matmul C_R w) + at1 (matmul C_R w) + at2 (matmul C_R w) + at3 (matmul C_R w)
      = at0 w"
    by (simp add: mix_expand)
  ultimately have "\<bar>fadd (fadd (fadd F0 F1) F2) F3 - at0 w\<bar> \<le> 89 * D + 124 * eta"
    using err seven by argo
  then show ?thesis
    by (simp only: F0_def F1_def F2_def F3_def D_def X_def)
qed

text \<open>
  \<^bold>\<open>C9\<close>, as stated: for every control output \<open>u\<close> the four rotor commands
  \<open>F = np.matmul(C_R, u)\<close> add up to exactly \<open>u[0]\<close>. It fails in float64 at
  \<open>u = [0.1, 1.0, 0.0, 0.0]\<close>: the commands are \<open>0.025 + 2.5\<close> and \<open>0.025 - 2.5\<close> rounded,
  \<open>[2.525, -2.475, -2.475, 2.525]\<close>, and their sum is \<open>0.09999999999999964\<close>, whether
  it is taken exactly or with every addition rounded. At this input every product is
  exact and two terms of every row are zero, so the order in which a row is
  accumulated makes no difference.
\<close>

theorem float64_rotor_commands_sum_differs:
  "at0 (matmul_f64 C_R_f64 u_tenth) + at1 (matmul_f64 C_R_f64 u_tenth)
     + at2 (matmul_f64 C_R_f64 u_tenth) + at3 (matmul_f64 C_R_f64 u_tenth) \<noteq> at0 u_tenth
   \<and> fadd (fadd (fadd (at0 (matmul_f64 C_R_f64 u_tenth)) (at1 (matmul_f64 C_R_f64 u_tenth)))
         (at2 (matmul_f64 C_R_f64 u_tenth))) (at3 (matmul_f64 C_R_f64 u_tenth)) \<noteq> at0 u_tenth"
  unfolding F_tenth by (simp add: u_tenth_val fadd_def fl_steps)

text \<open>
  \<^bold>\<open>C9\<close>, amended. The entries of \<open>C_R\<close> as the program stores them in float64 are
  exactly \<open>0.25\<close> and \<open>2.5\<close> with their signs, so the first column of \<open>C_R\<close> sums to 1
  and each other column to 0, and for every control output \<open>w\<close> the components of the
  exact product \<open>C_R \<cdot> w\<close> add up to \<open>w[0]\<close>. The commands the program computes,
  \<open>F = np.matmul(C_R, w)\<close> with every product and partial sum rounded (overflow
  aside), add up to \<open>w[0]\<close> up to rounding only: with
  \<open>X = |w[0]|/4 + 2.5 \<cdot> (|w[1]| + |w[2]| + |w[3]|)\<close>, their exact sum is within
  \<open>60 \<cdot> X / 2^53 + 116 \<cdot> 2^-1075\<close> of \<open>w[0]\<close>, and their sum computed in float64 from
  left to right is within \<open>89 \<cdot> X / 2^53 + 124 \<cdot> 2^-1075\<close>.
\<close>

theorem rotor_commands_sum_up_to_rounding:
  "C_R_f64 = C_R
   \<and> at0 (row0 C_R) + at0 (row1 C_R) + at0 (row2 C_R) + at0 (row3 C_R) = 1
   \<and> at1 (row0 C_R) + at1 (row1 C_R) + at1 (row2 C_R) + at1 (row3 C_R) = 0
   \<and> at2 (row0 C_R) + at2 (row1 C_R) + at2 (row2 C_R) + at2 (row3 C_R) = 0
   \<and> at3 (row0 C_R) + at3 (row1 C_R) + at3 (row2 C_R) + at3 (row3 C_R) = 0
   \<and> at0 (matmul C_R w) + at1 (matmul C_R w) + at2 (matmul C_R w) + at3 (matmul C_R w) = at0 w
   \<and> \<bar>at0 (matmul_f64 C_R_f64 w) + at1 (matmul_f64 C_R_f64 w) + at2 (matmul_f64 C_R_f64 w)
        + at3 (matmul_f64 C_R_f64 w) - at0 w\<bar>
       \<le> 60 * ((\<bar>at0 w\<bar> / 4 + 5 / 2 * (\<bar>at1 w\<bar> + \<bar>at2 w\<bar> + \<bar>at3 w\<bar>)) / 2 ^ 53) + 116 * eta
   \<and> \<bar>fadd (fadd (fadd (at0 (matmul_f64 C_R_f64 w)) (at1 (matmul_f64 C_R_f64 w)))
          (at2 (matmul_f64 C_R_f64 w))) (at3 (matmul_f64 C_R_f64 w)) - at0 w\<bar>
       \<le> 89 * ((\<bar>at0 w\<bar> / 4 + 5 / 2 * (\<bar>at1 w\<bar> + \<bar>at2 w\<bar> + \<bar>at3 w\<bar>)) / 2 ^ 53) + 124 * eta
   \<and> eta = 1 / 2 ^ 1075"
proof -
  have cols: "at0 (row0 C_R) + at0 (row1 C_R) + at0 (row2 C_R) + at0 (row3 C_R) = 1"
    "at1 (row0 C_R) + at1 (row1 C_R) + at1 (row2 C_R) + at1 (row3 C_R) = 0"
    "at2 (row0 C_R) + at2 (row1 C_R) + at2 (row2 C_R) + at2 (row3 C_R) = 0"
    "at3 (row0 C_R) + at3 (row1 C_R) + at3 (row2 C_R) + at3 (row3 C_R) = 0"
    by (simp_all add: C_R_def a_rotor_def b_rotor_def c_rotor_def L_arm_def C_const_def)
  have exact: "at0 (matmul C_R w) + at1 (matmul C_R w) + at2 (matmul C_R w) + at3 (matmul C_R w)
      = at0 w"
    by (simp add: mix_expand)
  show ?thesis
    using C_R_f64_exact cols exact float64_exact_sum_bound [of w] float64_rounded_sum_bound [of w]
      eta_def
    by (intro conjI)
qed

end
